theory Spec2Isabelle
  imports Complex_Main
begin

section \<open>Tables\<close>

text \<open>
  The repository works on pandas tables. A cell is missing (None, NaN and NaT are the
  same null to \<open>dropna\<close>, \<open>fillna\<close> and \<open>isna\<close>), a number, a text or a
  timestamp. Numbers are exact rationals; timestamps are whole seconds since
  1970-01-01 00:00:00, which is all that day of week, hour and daily buckets read.
\<close>

datatype cell = Null | Num rat | Str string | Ts int

text \<open>
  The column types that \<open>is_numeric_dtype\<close> and \<open>is_datetime64_any_dtype\<close>
  tell apart.
\<close>

datatype dtype = Numeric | Datetime | Object

text \<open>
  A table has named, typed columns and rows; every row carries its index label and one
  cell per column.
\<close>

record dataframe =
  columns :: "(string \<times> dtype) list"
  rows :: "(cell \<times> cell list) list"

definition DataFrame :: dataframe where
  \<comment> \<open>\<open>pd.DataFrame()\<close>: no column, no row\<close>
  "DataFrame = \<lparr>columns = [], rows = []\<rparr>"

definition names :: "dataframe \<Rightarrow> string list" where
  "names df = map fst (columns df)"

definition has_column :: "string \<Rightarrow> dataframe \<Rightarrow> bool" where
  \<comment> \<open>\<open>c in df.columns\<close>\<close>
  "has_column c df = (c \<in> set (names df))"

fun position :: "'a \<Rightarrow> 'a list \<Rightarrow> nat" where
  "position a [] = 0"
| "position a (x # xs) = (if x = a then 0 else Suc (position a xs))"

definition pos :: "dataframe \<Rightarrow> string \<Rightarrow> nat" where
  "pos df c = position c (names df)"

definition cell_at :: "nat \<Rightarrow> cell list \<Rightarrow> cell" where
  "cell_at n r = (if n < length r then r ! n else Null)"

definition cell_of :: "dataframe \<Rightarrow> string \<Rightarrow> cell list \<Rightarrow> cell" where
  \<comment> \<open>the cell of row \<open>r\<close> in column \<open>c\<close>; the source reads a column only after
      checking that the table has it\<close>
  "cell_of df c r = cell_at (pos df c) r"

definition dtype_of :: "dataframe \<Rightarrow> string \<Rightarrow> dtype" where
  "dtype_of df c = (case map_of (columns df) c of Some t \<Rightarrow> t | None \<Rightarrow> Object)"

definition series :: "dataframe \<Rightarrow> string \<Rightarrow> cell list" where
  \<comment> \<open>\<open>df[c]\<close>, the cells of one column from top to bottom\<close>
  "series df c = map (\<lambda>(i, r). cell_of df c r) (rows df)"

definition wf :: "dataframe \<Rightarrow> bool" where
  \<comment> \<open>column names are distinct and every row has one cell per column\<close>
  "wf df = (distinct (names df) \<and>
            list_all (\<lambda>(i, r). length r = length (columns df)) (rows df))"

definition empty :: "dataframe \<Rightarrow> bool" where
  \<comment> \<open>\<open>df.empty\<close>: one of the two axes has length 0\<close>
  "empty df = (columns df = [] \<or> rows df = [])"

definition setitem :: "string \<Rightarrow> dtype \<Rightarrow> (cell list \<Rightarrow> cell) \<Rightarrow> dataframe \<Rightarrow> dataframe" where
  \<comment> \<open>\<open>df[c] = values\<close>, the value of each row computed from that row: an existing
      column is replaced where it stands, a new one is added on the right\<close>
  "setitem c t f df =
     (if has_column c df
      then \<lparr>columns = (columns df)[pos df c := (c, t)],
            rows = map (\<lambda>(i, r). (i, r[pos df c := f r])) (rows df)\<rparr>
      else \<lparr>columns = columns df @ [(c, t)],
            rows = map (\<lambda>(i, r). (i, r @ [f r])) (rows df)\<rparr>)"

definition derive :: "string \<Rightarrow> dtype \<Rightarrow> (cell \<Rightarrow> cell) \<Rightarrow> string \<Rightarrow> dataframe \<Rightarrow> dataframe" where
  \<comment> \<open>\<open>df[c] = g(df[src])\<close> for an element-wise \<open>g\<close>\<close>
  "derive c t g src df = setitem c t (\<lambda>r. g (cell_of df src r)) df"

definition convert :: "string \<Rightarrow> dtype \<Rightarrow> (cell \<Rightarrow> cell) \<Rightarrow> dataframe \<Rightarrow> dataframe" where
  \<comment> \<open>\<open>df[c] = g(df[c])\<close>\<close>
  "convert c t g df = derive c t g c df"

definition record_of :: "dataframe \<Rightarrow> cell list \<Rightarrow> string \<Rightarrow> cell" where
  \<comment> \<open>a row read by column name\<close>
  "record_of df r = (\<lambda>c. cell_of df c r)"

definition records :: "dataframe \<Rightarrow> (string \<Rightarrow> cell) list" where
  \<comment> \<open>\<open>df.to_dict('records')\<close>: the rows from top to bottom, each read by column name\<close>
  "records df = map (\<lambda>(i, r). record_of df r) (rows df)"

definition when_column :: "string \<Rightarrow> (dataframe \<Rightarrow> dataframe) \<Rightarrow> dataframe \<Rightarrow> dataframe" where
  \<comment> \<open>\<open>if c in df.columns:\<close> followed by one assignment to \<open>df\<close>\<close>
  "when_column c f df = (if has_column c df then f df else df)"

fun keep_first :: "('i \<times> 'a) list \<Rightarrow> 'a list \<Rightarrow> ('i \<times> 'a) list" where
  "keep_first [] seen = []"
| "keep_first ((i, r) # xs) seen =
     (if r \<in> set seen then keep_first xs seen else (i, r) # keep_first xs (r # seen))"

definition drop_duplicates :: "dataframe \<Rightarrow> dataframe" where
  \<comment> \<open>\<open>df.drop_duplicates()\<close>: rows are compared on all columns, nulls equal to
      nulls, and the first of equal rows stays with its label\<close>
  "drop_duplicates df = df\<lparr>rows := keep_first (rows df) []\<rparr>"

definition dropna :: "dataframe \<Rightarrow> dataframe" where
  \<comment> \<open>\<open>df.dropna()\<close>: a row with a null in any column goes\<close>
  "dropna df = df\<lparr>rows := filter (\<lambda>(i, r). Null \<notin> set r) (rows df)\<rparr>"

section \<open>Conversions of the table library\<close>

text \<open>
  How pandas reads a text as a number or as a timestamp is the library's business; the
  two readers are parameters of the model. With \<open>errors='coerce'\<close> a value that cannot
  be read becomes null; a null stays null, a number stays a number under
  \<open>to_numeric\<close>, a timestamp stays a timestamp under \<open>to_datetime\<close>, and
  \<open>to_datetime\<close> reads a number as nanoseconds since the epoch.
\<close>

record readers =
  numeric_text :: "string \<Rightarrow> rat option"
  datetime_text :: "string \<Rightarrow> int option"

definition to_numeric :: "readers \<Rightarrow> cell \<Rightarrow> cell" where
  "to_numeric P c =
     (case c of
        Num n \<Rightarrow> Num n
      | Str s \<Rightarrow> (case numeric_text P s of Some n \<Rightarrow> Num n | None \<Rightarrow> Null)
      | _ \<Rightarrow> Null)"

definition to_datetime :: "readers \<Rightarrow> cell \<Rightarrow> cell" where
  "to_datetime P c =
     (case c of
        Ts t \<Rightarrow> Ts t
      | Str s \<Rightarrow> (case datetime_text P s of Some t \<Rightarrow> Ts t | None \<Rightarrow> Null)
      | Num n \<Rightarrow> (if - (2 ^ 63) < n \<and> n < 2 ^ 63 then Ts (\<lfloor>n / 1000000000\<rfloor>) else Null)
      | Null \<Rightarrow> Null)"

definition fillna :: "rat \<Rightarrow> cell \<Rightarrow> cell" where
  "fillna v c = (case c of Null \<Rightarrow> Num v | _ \<Rightarrow> c)"

definition dayofweek :: "cell \<Rightarrow> cell" where
  \<comment> \<open>\<open>.dt.dayofweek\<close>: Monday is 0; 1970-01-01 was a Thursday; NaT gives NaN\<close>
  "dayofweek c = (case c of Ts t \<Rightarrow> Num (of_int ((t div 86400 + 3) mod 7)) | _ \<Rightarrow> Null)"

definition hour :: "cell \<Rightarrow> cell" where
  \<comment> \<open>\<open>.dt.hour\<close>\<close>
  "hour c = (case c of Ts t \<Rightarrow> Num (of_int ((t div 3600) mod 24)) | _ \<Rightarrow> Null)"

section \<open>Record cleaner (data\_processing/cleaner.py)\<close>

definition clean_train_delays :: "readers \<Rightarrow> dataframe \<Rightarrow> dataframe" where
  "clean_train_delays P df =
     (let df1 = when_column ''delay_minutes''
                  (convert ''delay_minutes'' Numeric (to_numeric P)) df;
          df2 = when_column ''scheduled_time''
                  (convert ''scheduled_time'' Datetime (to_datetime P)) df1;
          df3 = when_column ''actual_time''
                  (convert ''actual_time'' Datetime (to_datetime P)) df2;
          df4 = when_column ''date'' (convert ''date'' Datetime (to_datetime P)) df3;
          df5 = when_column ''delay_minutes'' (convert ''delay_minutes'' Numeric (fillna 0)) df4;
          df6 = drop_duplicates df5
      in when_column ''scheduled_time''
           (\<lambda>d. derive ''hour_of_day'' Numeric hour ''scheduled_time''
                  (derive ''day_of_week'' Numeric dayofweek ''scheduled_time'' d))
           df6)"

definition clean_weather_data :: "readers \<Rightarrow> dataframe \<Rightarrow> dataframe" where
  "clean_weather_data P df =
     (let df1 = when_column ''temperature'' (convert ''temperature'' Numeric (to_numeric P)) df;
          df2 = when_column ''humidity'' (convert ''humidity'' Numeric (to_numeric P)) df1;
          df3 = when_column ''wind_speed'' (convert ''wind_speed'' Numeric (to_numeric P)) df2;
          df4 = when_column ''precipitation''
                  (convert ''precipitation'' Numeric (to_numeric P)) df3;
          df5 = when_column ''date'' (convert ''date'' Datetime (to_datetime P)) df4
      in dropna df5)"

section \<open>Sample readers and tables\<close>

text \<open>
  For concrete runs the readers are fixed to the two text formats of the repository's
  sample data: decimal numerals, and timestamps written \<open>YYYY-MM-DD\<close> or
  \<open>YYYY-MM-DD HH:MM:SS\<close>. Any other text is unreadable. The general theorems hold
  for every pair of readers.
\<close>

definition digit :: "char \<Rightarrow> nat option" where
  "digit c = (let n = of_char c in if (48::nat) \<le> n \<and> n \<le> 57 then Some (n - 48) else None)"

fun digits :: "string \<Rightarrow> nat \<Rightarrow> nat option" where
  "digits [] acc = Some acc"
| "digits (c # cs) acc = (case digit c of None \<Rightarrow> None | Some d \<Rightarrow> digits cs (10 * acc + d))"

definition number :: "string \<Rightarrow> nat option" where
  "number s = (if s = [] then None else digits s 0)"

definition unsigned_decimal :: "string \<Rightarrow> rat option" where
  "unsigned_decimal s =
     (let i = takeWhile (\<lambda>c. c \<noteq> CHR ''.'') s; f = dropWhile (\<lambda>c. c \<noteq> CHR ''.'') s
      in case number i of
           None \<Rightarrow> None
         | Some a \<Rightarrow>
             (if f = [] then Some (of_nat a)
              else case number (tl f) of
                     None \<Rightarrow> None
                   | Some b \<Rightarrow> Some (of_nat a + of_nat b / 10 ^ length (tl f))))"

definition decimal :: "string \<Rightarrow> rat option" where
  "decimal s =
     (case s of
        [] \<Rightarrow> None
      | c # cs \<Rightarrow> (if c = CHR ''-'' then map_option uminus (unsigned_decimal cs)
                   else unsigned_decimal s))"

definition days_in_month :: "int \<Rightarrow> int \<Rightarrow> int" where
  "days_in_month y m =
     (if m = 2 then (if y mod 4 = 0 \<and> (y mod 100 \<noteq> 0 \<or> y mod 400 = 0) then 29 else 28)
      else if m = 4 \<or> m = 6 \<or> m = 9 \<or> m = 11 then 30 else 31)"

definition days_from_civil :: "int \<Rightarrow> int \<Rightarrow> int \<Rightarrow> int" where
  \<comment> \<open>days from 1970-01-01 to the given day of the Gregorian calendar\<close>
  "days_from_civil y m d =
     (let y' = (if m \<le> 2 then y - 1 else y);
          era = y' div 400;
          yoe = y' - era * 400;
          doy = (153 * (if m > 2 then m - 3 else m + 9) + 2) div 5 + d - 1;
          doe = yoe * 365 + yoe div 4 - yoe div 100 + doy
      in era * 146097 + doe - 719468)"

definition iso_date :: "string \<Rightarrow> int option" where
  "iso_date s =
     (if length s = 10 \<and> s ! 4 = CHR ''-'' \<and> s ! 7 = CHR ''-''
      then case (number (take 4 s), number (take 2 (drop 5 s)), number (drop 8 s)) of
             (Some y, Some m, Some d) \<Rightarrow>
               (if 1 \<le> m \<and> m \<le> 12 \<and> 1 \<le> d \<and> int d \<le> days_in_month (int y) (int m)
                then Some (days_from_civil (int y) (int m) (int d)) else None)
           | _ \<Rightarrow> None
      else None)"

definition iso_time :: "string \<Rightarrow> int option" where
  "iso_time s =
     (if length s = 8 \<and> s ! 2 = CHR '':'' \<and> s ! 5 = CHR '':''
      then case (number (take 2 s), number (take 2 (drop 3 s)), number (drop 6 s)) of
             (Some h, Some m, Some sec) \<Rightarrow>
               (if h < 24 \<and> m < 60 \<and> sec < 60
                then Some (int h * 3600 + int m * 60 + int sec) else None)
           | _ \<Rightarrow> None
      else None)"

definition iso_datetime :: "string \<Rightarrow> int option" where
  "iso_datetime s =
     (if length s = 10 then map_option (\<lambda>d. d * 86400) (iso_date s)
      else if length s = 19 \<and> s ! 10 = CHR '' ''
      then case (iso_date (take 10 s), iso_time (drop 11 s)) of
             (Some d, Some t) \<Rightarrow> Some (d * 86400 + t)
           | _ \<Rightarrow> None
      else None)"

definition sample_readers :: readers where
  "sample_readers = \<lparr>numeric_text = decimal, datetime_text = iso_datetime\<rparr>"

fun range_index :: "nat \<Rightarrow> 'a list \<Rightarrow> (cell \<times> 'a) list" where
  \<comment> \<open>the default index: rows are labelled 0, 1, 2, ...\<close>
  "range_index n [] = []"
| "range_index n (r # rs) = (Num (of_nat n), r) # range_index (Suc n) rs"

definition from_records :: "(string \<times> dtype) list \<Rightarrow> cell list list \<Rightarrow> dataframe" where
  \<comment> \<open>\<open>pd.DataFrame(records)\<close>\<close>
  "from_records cs rs = \<lparr>columns = cs, rows = range_index 0 rs\<rparr>"

definition weather_gaps :: dataframe where
  \<comment> \<open>a raw weather table with a missing temperature and an unreadable date\<close>
  "weather_gaps = from_records
     [(''date'', Object), (''temperature'', Numeric), (''humidity'', Numeric),
      (''wind_speed'', Numeric), (''precipitation'', Numeric)]
     [[Str ''2023-01-15'', Num (5 / 2), Num 85, Num 15, Num (1 / 2)],
      [Str ''2023-01-16'', Null, Num 90, Num 20, Num 2],
      [Str ''n/a'', Num 5, Num 70, Num 10, Num 0]]"

definition dummy_train_data :: dataframe where
  \<comment> \<open>the five sample rows of cleaner.py; the last has no delay\<close>
  "dummy_train_data = from_records
     [(''train_id'', Object), (''scheduled_time'', Object), (''actual_time'', Object),
      (''delay_minutes'', Numeric), (''route'', Object), (''date'', Object)]
     [[Str ''R123'', Str ''2023-01-15 08:00:00'', Str ''2023-01-15 08:05:00'', Num 5,
       Str ''Ostrava-Frenstat'', Str ''2023-01-15''],
      [Str ''EC456'', Str ''2023-01-15 10:30:00'', Str ''2023-01-15 10:30:00'', Num 0,
       Str ''Ostrava-Frydlant'', Str ''2023-01-15''],
      [Str ''R123'', Str ''2023-01-16 08:00:00'', Str ''2023-01-16 08:10:00'', Num 10,
       Str ''Ostrava-Frenstat'', Str ''2023-01-16''],
      [Str ''EC456'', Str ''2023-01-16 10:30:00'', Str ''2023-01-16 10:35:00'', Num 5,
       Str ''Ostrava-Frydlant'', Str ''2023-01-16''],
      [Str ''R123'', Str ''2023-01-17 08:00:00'', Str ''2023-01-17 08:00:00'', Null,
       Str ''Ostrava-Frenstat'', Str ''2023-01-17'']]"

definition day_labelled :: dataframe where
  \<comment> \<open>a raw table that already names the day of the week, written in two ways\<close>
  "day_labelled = from_records
     [(''scheduled_time'', Object), (''delay_minutes'', Numeric), (''day_of_week'', Object)]
     [[Str ''2023-01-15 08:00:00'', Num 5, Str ''Sun''],
      [Str ''2023-01-15 08:00:00'', Num 5, Str ''Sunday'']]"

section \<open>Merging (data\_processing/cleaner.py)\<close>

datatype error = KeyError | ValueError | NameError | TypeError | OSError











section \<open>Aggregator (analysis/statistical\_model.py)\<close>

text \<open>
  The numbers that pandas and scipy compute from a sample (quartiles, the t statistic and
  its p-value, a correlation coefficient) are not modelled: such a result is written as the
  library call with the samples it is given. \<open>None\<close> is the null sentinel.
\<close>

datatype statistic =
    Describe "cell list"
  | T_statistic "cell list" "cell list"
  | P_value "cell list" "cell list"
  | Correlation string "cell list" "cell list"

definition is_numeric_dtype :: "dtype \<Rightarrow> bool" where
  "is_numeric_dtype t = (t = Numeric)"

definition is_datetime64_any_dtype :: "dtype \<Rightarrow> bool" where
  "is_datetime64_any_dtype t = (t = Datetime)"

definition get_descriptive_statistics :: "dataframe \<Rightarrow> string \<Rightarrow> statistic option" where
  "get_descriptive_statistics df column =
     (if \<not> has_column column df \<or> \<not> is_numeric_dtype (dtype_of df column) then None
      else Some (Describe (series df column)))"

definition equals :: "cell \<Rightarrow> cell \<Rightarrow> bool" where
  \<comment> \<open>the element-wise \<open>==\<close> of a column with a value: a null equals nothing\<close>
  "equals a b = (a \<noteq> Null \<and> a = b)"

definition group_values :: "dataframe \<Rightarrow> string \<Rightarrow> string \<Rightarrow> cell \<Rightarrow> cell list" where
  \<comment> \<open>\<open>df[df[group_col] == val][value_col].dropna()\<close>\<close>
  "group_values df group_col value_col val =
     filter (\<lambda>v. v \<noteq> Null)
       (map (\<lambda>(i, r). cell_of df value_col r)
          (filter (\<lambda>(i, r). equals (cell_of df group_col r) val) (rows df)))"

definition perform_t_test ::
  "dataframe \<Rightarrow> string \<Rightarrow> string \<Rightarrow> cell \<Rightarrow> cell \<Rightarrow> (statistic \<times> statistic) option" where
  "perform_t_test df group_col value_col group1_val group2_val =
     (if \<not> has_column group_col df \<or> \<not> has_column value_col df then None
      else if \<not> is_numeric_dtype (dtype_of df value_col) then None
      else let group1 = group_values df group_col value_col group1_val;
               group2 = group_values df group_col value_col group2_val
           in if length group1 < 2 \<or> length group2 < 2 then None
              else Some (T_statistic group1 group2, P_value group1 group2))"

definition calculate_correlation :: "dataframe \<Rightarrow> string \<Rightarrow> string \<Rightarrow> string \<Rightarrow> statistic option" where
  \<comment> \<open>a method that pandas does not know raises inside the \<open>try\<close>\<close>
  "calculate_correlation df col1 col2 method =
     (if \<not> has_column col1 df \<or> \<not> has_column col2 df then None
      else if \<not> is_numeric_dtype (dtype_of df col1) \<or> \<not> is_numeric_dtype (dtype_of df col2)
      then None
      else if method \<in> set [''pearson'', ''kendall'', ''spearman'']
      then Some (Correlation method (series df col1) (series df col2))
      else None)"

text \<open>
  Resampling. The frequencies are the two that the repository uses, \<open>'H'\<close> and
  \<open>'D'\<close>; the aggregations are named by \<open>'mean'\<close>, \<open>'sum'\<close>, \<open>'min'\<close>,
  \<open>'max'\<close> and \<open>'count'\<close>. Buckets are aligned to the hour or to midnight; every
  bucket from the first to the last timestamp appears, an empty one too; rows without a
  timestamp belong to no bucket; nulls in the value column are skipped.
\<close>

datatype freq = Hourly | Daily

datatype agg_name = AggMean | AggSum | AggMin | AggMax | AggCount

datatype agg_func = AggStr agg_name | AggDict "(string \<times> agg_name) list" | AggOther

definition width :: "freq \<Rightarrow> int" where
  "width f = (case f of Hourly \<Rightarrow> 3600 | Daily \<Rightarrow> 86400)"

definition aggregate :: "agg_name \<Rightarrow> rat list \<Rightarrow> cell" where
  "aggregate a xs =
     (case a of
        AggMean \<Rightarrow> (if xs = [] then Null else Num (sum_list xs / of_nat (length xs)))
      | AggSum \<Rightarrow> Num (sum_list xs)
      | AggMin \<Rightarrow> (if xs = [] then Null else Num (fold min xs (hd xs)))
      | AggMax \<Rightarrow> (if xs = [] then Null else Num (fold max xs (hd xs)))
      | AggCount \<Rightarrow> Num (of_nat (length xs)))"

definition timestamps :: "cell list \<Rightarrow> int list" where
  "timestamps cs = concat (map (\<lambda>c. case c of Ts t \<Rightarrow> [t] | _ \<Rightarrow> []) cs)"

definition bucket :: "dataframe \<Rightarrow> string \<Rightarrow> string \<Rightarrow> int \<Rightarrow> int \<Rightarrow> rat list" where
  \<comment> \<open>the numbers of the value column in the rows whose time falls into bucket \<open>b\<close>\<close>
  "bucket df time_col value_col w b =
     concat (map (\<lambda>(i, r). case (cell_of df time_col r, cell_of df value_col r) of
                              (Ts t, Num v) \<Rightarrow> (if t div w = b then [v] else [])
                            | _ \<Rightarrow> []) (rows df))"

definition buckets :: "dataframe \<Rightarrow> string \<Rightarrow> int \<Rightarrow> int list" where
  "buckets df time_col w =
     (case map (\<lambda>t. t div w) (timestamps (series df time_col)) of
        [] \<Rightarrow> []
      | b # bs \<Rightarrow> [fold min bs b..fold max bs b])"

definition aggregate_by_time ::
  "dataframe \<Rightarrow> string \<Rightarrow> string \<Rightarrow> freq \<Rightarrow> agg_func \<Rightarrow> dataframe" where
  "aggregate_by_time df time_col value_col f agg =
     (if \<not> has_column time_col df \<or> \<not> has_column value_col df then DataFrame
      else if \<not> is_datetime64_any_dtype (dtype_of df time_col) then DataFrame
      else if \<not> is_numeric_dtype (dtype_of df value_col) then DataFrame
      else case agg of
             AggStr a \<Rightarrow>
               \<lparr>columns = [(value_col, Numeric)],
                rows = map (\<lambda>b. (Ts (b * width f),
                                  [aggregate a (bucket df time_col value_col (width f) b)]))
                         (buckets df time_col (width f))\<rparr>
           | AggDict d \<Rightarrow>
               (if d = [] then DataFrame
                else \<lparr>columns = map (\<lambda>(k, a). (k, Numeric)) d,
                      rows = map (\<lambda>b. (Ts (b * width f),
                                        map (\<lambda>(k, a). aggregate a
                                               (bucket df time_col value_col (width f) b)) d))
                               (buckets df time_col (width f))\<rparr>)
           | AggOther \<Rightarrow> DataFrame)"

definition dummy_data :: dataframe where
  \<comment> \<open>the six sample rows of statistical\_model.py, as \<open>pd.DataFrame(dummy_data)\<close>\<close>
  "dummy_data = from_records
     [(''train_id'', Object), (''scheduled_time'', Object), (''actual_time'', Object),
      (''delay_minutes'', Numeric), (''route'', Object), (''date'', Object),
      (''temperature'', Numeric), (''weather_condition'', Object)]
     [[Str ''R123'', Str ''2023-01-15 08:00:00'', Str ''2023-01-15 08:05:00'', Num 5,
       Str ''Ostrava-Frenstat'', Str ''2023-01-15'', Num (5 / 2), Str ''cloudy''],
      [Str ''EC456'', Str ''2023-01-15 10:30:00'', Str ''2023-01-15 10:30:00'', Num 0,
       Str ''Ostrava-Frydlant'', Str ''2023-01-15'', Num 3, Str ''sunny''],
      [Str ''R123'', Str ''2023-01-16 08:00:00'', Str ''2023-01-16 08:10:00'', Num 10,
       Str ''Ostrava-Frenstat'', Str ''2023-01-16'', Num (- 1), Str ''snowy''],
      [Str ''EC456'', Str ''2023-01-16 10:30:00'', Str ''2023-01-16 10:35:00'', Num 5,
       Str ''Ostrava-Frydlant'', Str ''2023-01-16'', Num 0, Str ''snowy''],
      [Str ''R123'', Str ''2023-01-17 08:00:00'', Str ''2023-01-17 08:00:00'', Num 0,
       Str ''Ostrava-Frenstat'', Str ''2023-01-17'', Num 5, Str ''rainy''],
      [Str ''R123'', Str ''2023-01-17 12:00:00'', Str ''2023-01-17 12:15:00'', Num 15,
       Str ''Ostrava-Frenstat'', Str ''2023-01-17'', Num 6, Str ''rainy'']]"

definition df_merged :: dataframe where
  \<comment> \<open>the self-test table: \<open>scheduled_time\<close> and \<open>date\<close> are converted\<close>
  "df_merged =
     convert ''date'' Datetime (to_datetime sample_readers)
       (convert ''scheduled_time'' Datetime (to_datetime sample_readers) dummy_data)"

definition is_snowy :: "cell \<Rightarrow> cell" where
  \<comment> \<open>\<open>lambda x: 1 if x == 'snowy' else 0\<close>\<close>
  "is_snowy x = (if x = Str ''snowy'' then Num 1 else Num 0)"

definition df_merged_snowy :: dataframe where
  \<comment> \<open>the self-test table after \<open>df_merged['is_snowy'] = ...\<close>\<close>
  "df_merged_snowy = derive ''is_snowy'' Numeric is_snowy ''weather_condition'' df_merged"

section \<open>Geo builder (gis\_output/spatial\_processor.py)\<close>

text \<open>
  A geometry table is a table with one point per row and an optional name of its
  coordinate reference system. The projection mathematics, the reading of a text as a
  coordinate and the file system belong to the libraries and are parameters: \<open>float_text\<close>
  is how the geometry library turns a text into a number (some versions refuse every text),
  \<open>transform\<close> maps a point from one reference system to another, and \<open>writable\<close>
  tells whether a file can be written at a path. The name of a reference system is taken
  to be one that the library knows.
\<close>

type_synonym point = "rat \<times> rat"

record geodataframe =
  frame :: dataframe
  geometry :: "point list"
  crs :: "string option"

record geo_lib =
  float_text :: "string \<Rightarrow> rat option"
  transform :: "string \<Rightarrow> string \<Rightarrow> point \<Rightarrow> point"
  writable :: "string \<Rightarrow> bool"






definition to_crs :: "geo_lib \<Rightarrow> string \<Rightarrow> geodataframe \<Rightarrow> error + geodataframe" where
  \<comment> \<open>a geometry table without a reference system cannot be reprojected\<close>
  "to_crs L target gdf =
     (case crs gdf of
        None \<Rightarrow> Inl ValueError
      | Some c \<Rightarrow> Inr (gdf\<lparr>geometry := map (transform L c target) (geometry gdf),
                           crs := Some target\<rparr>))"

type_synonym files = "string \<rightharpoonup> string \<times> geodataframe"

definition to_file :: "geo_lib \<Rightarrow> files \<Rightarrow> geodataframe \<Rightarrow> string \<Rightarrow> string \<Rightarrow> error + files" where
  \<comment> \<open>\<open>gdf.to_file(path, driver=driver)\<close>: the file holds the table, in the driver's format\<close>
  "to_file L fs gdf path driver =
     (if writable L path then Inr (fs(path \<mapsto> (driver, gdf))) else Inl OSError)"

definition save_gdf_to_shapefile ::
  "geo_lib \<Rightarrow> files \<Rightarrow> geodataframe \<Rightarrow> string \<Rightarrow> bool \<times> files" where
  "save_gdf_to_shapefile L fs gdf path =
     (case to_file L fs gdf path ''ESRI Shapefile'' of
        Inr fs' \<Rightarrow> (True, fs')
      | Inl e \<Rightarrow> (False, fs))"

definition create_leaflet_geojson ::
  "geo_lib \<Rightarrow> files \<Rightarrow> geodataframe \<Rightarrow> string \<Rightarrow> bool \<times> files" where
  "create_leaflet_geojson L fs gdf path =
     (case (if crs gdf \<noteq> None \<and> crs gdf \<noteq> Some ''EPSG:4326''
            then to_crs L ''EPSG:4326'' gdf else Inr gdf) of
        Inl e \<Rightarrow> (False, fs)
      | Inr gdf' \<Rightarrow>
          (case to_file L fs gdf' path ''GeoJSON'' of
             Inr fs' \<Rightarrow> (True, fs')
           | Inl e \<Rightarrow> (False, fs)))"

definition plain_lib :: geo_lib where
  \<comment> \<open>for concrete runs: decimal numerals are read, coordinates are left as they are,
      every path is writable\<close>
  "plain_lib = \<lparr>float_text = decimal, transform = (\<lambda>a b p. p), writable = (\<lambda>p. True)\<rparr>"



definition unreferenced_stations :: geodataframe where
  \<comment> \<open>a point in metres of a national grid, with no reference system attached\<close>
  "unreferenced_stations =
     \<lparr>frame = from_records [(''station_name'', Object)] [[Str ''Ostrava hl.n.'']],
      geometry = [(- 470000, - 1100000)], crs = None\<rparr>"

definition grid_stations :: geodataframe where
  \<comment> \<open>the same point, tagged with its reference system\<close>
  "grid_stations = unreferenced_stations\<lparr>crs := Some ''EPSG:5514''\<rparr>"


section \<open>Cleaning in place: the caller's table object\<close>

text \<open>
  The two cleaners receive a reference to a table object and change that object: a column
  assignment, \<open>drop_duplicates(inplace=True)\<close> and \<open>dropna(inplace=True)\<close> all write
  to the object that \<open>df\<close> refers to, and \<open>return df\<close> hands the same reference back.
  A store maps references to the tables they hold.
\<close>

type_synonym store = "nat \<rightharpoonup> dataframe"

definition in_place :: "nat \<Rightarrow> (dataframe \<Rightarrow> dataframe) \<Rightarrow> store \<Rightarrow> store" where
  \<comment> \<open>one statement that changes the object behind the reference\<close>
  "in_place df f s = (case s df of None \<Rightarrow> s | Some t \<Rightarrow> s(df \<mapsto> f t))"



section \<open>Facts about tables\<close>

lemma position_update: "c \<in> set xs \<Longrightarrow> xs[position c xs := c] = xs"
  by (induction xs) auto

lemma position_less: "c \<in> set xs \<Longrightarrow> position c xs < length xs"
  by (induction xs) auto

lemma names_convert:
  "has_column c df \<Longrightarrow> names (convert c t g df) = names df"
  by (simp add: convert_def derive_def setitem_def names_def has_column_def pos_def map_update
      position_update)

lemma has_column_convert:
  "has_column c df \<Longrightarrow> has_column d (convert c t g df) = has_column d df"
  by (simp add: has_column_def names_convert)

lemma rows_convert:
  "has_column c df \<Longrightarrow>
   rows (convert c t g df) = map (\<lambda>(i, r). (i, r[pos df c := g (cell_at (pos df c) r)])) (rows df)"
  by (simp add: convert_def derive_def setitem_def cell_of_def)

lemma null_update:
  "Null \<in> set r \<Longrightarrow> g Null = Null \<Longrightarrow> Null \<in> set (r[n := g (cell_at n r)])"
  by (metis cell_at_def in_set_conv_nth length_list_update nth_list_update_eq nth_list_update_neq)


lemma tracked_refl: "list_all2 (\<lambda>(i, r) (j, r'). i = j \<and> (Null \<in> set r \<longrightarrow> Null \<in> set r')) xs xs"
  by (rule list_all2_refl) auto

lemma tracked_convert:
  assumes "has_column c df" "g Null = Null"
  shows "list_all2 (\<lambda>(i, r) (j, r'). i = j \<and> (Null \<in> set r \<longrightarrow> Null \<in> set r'))
           (rows df) (rows (convert c t g df))"
  unfolding rows_convert [OF assms(1)] list_all2_map2
  by (rule list_all2_refl) (auto simp: null_update assms(2))

lemma tracked_trans:
  assumes "list_all2 (\<lambda>(i, r) (j, r'). i = j \<and> (Null \<in> set r \<longrightarrow> Null \<in> set r')) xs ys"
    and "list_all2 (\<lambda>(i, r) (j, r'). i = j \<and> (Null \<in> set r \<longrightarrow> Null \<in> set r')) ys zs"
  shows "list_all2 (\<lambda>(i, r) (j, r'). i = j \<and> (Null \<in> set r \<longrightarrow> Null \<in> set r')) xs zs"
  by (rule list_all2_trans [OF _ assms]) auto

lemma tracked_step:
  assumes "list_all2 (\<lambda>(i, r) (j, r'). i = j \<and> (Null \<in> set r \<longrightarrow> Null \<in> set r')) xs (rows df)"
    and "g Null = Null"
  shows "list_all2 (\<lambda>(i, r) (j, r'). i = j \<and> (Null \<in> set r \<longrightarrow> Null \<in> set r')) xs
           (rows (when_column c (convert c t g) df))"
  using assms tracked_trans [OF assms(1) tracked_convert] by (auto simp: when_column_def)

lemma tracked_labels:
  "list_all2 (\<lambda>(i, r) (j, r'). i = j \<and> (Null \<in> set r \<longrightarrow> Null \<in> set r')) xs ys \<Longrightarrow>
   map fst ys = map fst xs"
  by (induction rule: list_all2_induct) auto

lemma tracked_null:
  "list_all2 (\<lambda>(i, r) (j, r'). i = j \<and> (Null \<in> set r \<longrightarrow> Null \<in> set r')) xs ys \<Longrightarrow>
   distinct (map fst xs) \<Longrightarrow> (i, r) \<in> set xs \<Longrightarrow> Null \<in> set r \<Longrightarrow> (i, r') \<in> set ys \<Longrightarrow>
   Null \<in> set r'"
proof (induction rule: list_all2_induct)
  case Nil
  then show ?case by simp
next
  case (Cons x xs y ys)
  have lab: "map fst ys = map fst xs"
    using Cons.hyps(2) by (rule tracked_labels)
  have "i \<in> fst ` set ys \<longleftrightarrow> i \<in> fst ` set xs"
    using lab by (metis set_map)
  with Cons show ?case
    by (auto simp: rev_image_eqI)
qed

lemma to_numeric_Null: "to_numeric P Null = Null"
  by (simp add: to_numeric_def)

lemma to_datetime_Null: "to_datetime P Null = Null"
  by (simp add: to_datetime_def)


section \<open>The weather cleaner leaves no null\<close>

text \<open>
  Claim C3. For every raw weather table (with distinct index labels, so that a row can be
  told by its label), the table returned by \<open>clean_weather_data\<close> has no null cell,
  and every row of the raw table that had a null in any column, coerced or not, is absent
  from the result.
\<close>

theorem clean_weather_data_no_null:
  assumes "distinct (map fst (rows df))"
  shows "list_all (\<lambda>(i, r). Null \<notin> set r) (rows (clean_weather_data P df)) \<and>
         (\<forall>(i, r) \<in> set (rows df). Null \<in> set r \<longrightarrow> i \<notin> fst ` set (rows (clean_weather_data P df)))"
proof -
  let ?R = "\<lambda>(i, r) (j, r'). i = j \<and> (Null \<in> set r \<longrightarrow> Null \<in> set r')"
  define df1 where "df1 = when_column ''temperature''
    (convert ''temperature'' Numeric (to_numeric P)) df"
  define df2 where "df2 = when_column ''humidity''
    (convert ''humidity'' Numeric (to_numeric P)) df1"
  define df3 where "df3 = when_column ''wind_speed''
    (convert ''wind_speed'' Numeric (to_numeric P)) df2"
  define df4 where "df4 = when_column ''precipitation''
    (convert ''precipitation'' Numeric (to_numeric P)) df3"
  define df5 where "df5 = when_column ''date'' (convert ''date'' Datetime (to_datetime P)) df4"
  have out: "clean_weather_data P df = dropna df5"
    by (simp add: clean_weather_data_def df1_def df2_def df3_def df4_def df5_def)
  have "list_all2 ?R (rows df) (rows df1)"
    unfolding df1_def by (rule tracked_step [where g = "to_numeric P"], rule tracked_refl, rule to_numeric_Null)
  then have "list_all2 ?R (rows df) (rows df2)"
    unfolding df2_def by (rule tracked_step [where g = "to_numeric P"]) (rule to_numeric_Null)
  then have "list_all2 ?R (rows df) (rows df3)"
    unfolding df3_def by (rule tracked_step [where g = "to_numeric P"]) (rule to_numeric_Null)
  then have "list_all2 ?R (rows df) (rows df4)"
    unfolding df4_def by (rule tracked_step [where g = "to_numeric P"]) (rule to_numeric_Null)
  then have tr: "list_all2 ?R (rows df) (rows df5)"
    unfolding df5_def by (rule tracked_step [where g = "to_datetime P"]) (rule to_datetime_Null)
  have a: "list_all (\<lambda>(i, r). Null \<notin> set r) (rows (dropna df5))"
    by (auto simp: dropna_def list_all_iff)
  have b: "i \<notin> fst ` set (rows (dropna df5))" if "(i, r) \<in> set (rows df)" "Null \<in> set r" for i r
    using tracked_null [OF tr assms that] by (auto simp: dropna_def)
  show ?thesis
    unfolding out using a b by blast
qed

theorem clean_weather_data_no_null_witness:
  "distinct (map fst (rows weather_gaps)) \<and>
   list_all (\<lambda>(i, r). Null \<notin> set r) (rows (clean_weather_data sample_readers weather_gaps)) \<and>
   Num 1 \<notin> fst ` set (rows (clean_weather_data sample_readers weather_gaps)) \<and>
   rows (clean_weather_data sample_readers weather_gaps) =
     [(Num 0, [Ts 1673740800, Num (5 / 2), Num 85, Num 15, Num (1 / 2)])]"
proof -
  have d: "distinct (map fst (rows weather_gaps))"
    by code_simp
  have m: "(Num 1, [Str ''2023-01-16'', Null, Num 90, Num 20, Num 2]) \<in> set (rows weather_gaps)"
    by code_simp
  have e: "rows (clean_weather_data sample_readers weather_gaps) =
     [(Num 0, [Ts 1673740800, Num (5 / 2), Num 85, Num 15, Num (1 / 2)])]"
    by code_simp
  from clean_weather_data_no_null [OF d, of sample_readers] m
  have "list_all (\<lambda>(i, r). Null \<notin> set r) (rows (clean_weather_data sample_readers weather_gaps))"
    and "Num 1 \<notin> fst ` set (rows (clean_weather_data sample_readers weather_gaps))"
    by fastforce+
  with d e show ?thesis by blast
qed

section \<open>The train-delay cleaner\<close>

lemma position_notin: "c \<notin> set xs \<Longrightarrow> position c xs = length xs"
  by (induction xs) auto

lemma nth_position: "c \<in> set xs \<Longrightarrow> xs ! position c xs = c"
  by (induction xs) auto

lemma position_eq: "c \<in> set xs \<Longrightarrow> position d xs = position c xs \<Longrightarrow> d = c"
  by (induction xs) (auto split: if_splits)

lemma position_append: "position c (xs @ ys) = (if c \<in> set xs then position c xs else length xs + position c ys)"
  by (induction xs) auto

lemma names_derive:
  "names (derive c t g src df) = (if has_column c df then names df else names df @ [c])"
  by (simp add: derive_def setitem_def names_def has_column_def pos_def map_update position_update)

lemma has_column_derive:
  "has_column d (derive c t g src df) = (d = c \<or> has_column d df)"
  by (auto simp: has_column_def names_derive)

lemma rows_derive:
  "rows (derive c t g src df) =
     map (\<lambda>(i, r). (i, if has_column c df then r[pos df c := g (cell_of df src r)]
                         else r @ [g (cell_of df src r)])) (rows df)"
  by (simp add: derive_def setitem_def)

lemma wf_derive: "wf df \<Longrightarrow> wf (derive c t g src df)"
  unfolding wf_def names_derive
  by (auto simp: rows_derive list_all_iff has_column_def derive_def setitem_def)

lemma wf_convert: "wf df \<Longrightarrow> wf (convert c t g df)"
  by (simp add: convert_def wf_derive)

lemma position_neq: "c \<in> set xs \<Longrightarrow> d \<noteq> c \<Longrightarrow> position d xs \<noteq> position c xs"
  using position_eq by metis

lemma keep_first_subset: "set (keep_first xs seen) \<subseteq> set xs"
  by (induction xs seen rule: keep_first.induct) auto

lemma keep_first_distinct:
  "distinct (map snd (keep_first xs seen)) \<and> snd ` set (keep_first xs seen) \<inter> set seen = {}"
proof (induction xs seen rule: keep_first.induct)
  case (1 seen)
  then show ?case by simp
next
  case (2 i r xs seen)
  then show ?case by (auto simp: rev_image_eqI)
qed

lemma wf_drop_duplicates: "wf df \<Longrightarrow> wf (drop_duplicates df)"
  using keep_first_subset [of "rows df" "[]"]
  by (auto simp: wf_def drop_duplicates_def names_def list_all_iff)

lemma record_derive_has:
  assumes "wf df" "(i, r) \<in> set (rows df)" "has_column c df"
  shows "record_of (derive c t g src df) (r[pos df c := g (cell_of df src r)])
         = (record_of df r)(c := g (record_of df r src))"
proof
  fix d
  have len: "length r = length (names df)"
    using assms by (auto simp: wf_def list_all_iff names_def)
  show "record_of (derive c t g src df) (r[pos df c := g (cell_of df src r)]) d
         = ((record_of df r)(c := g (record_of df r src))) d"
    using assms(3) len position_less [of c "names df"] position_neq [of c "names df" d]
    by (auto simp: record_of_def cell_of_def cell_at_def pos_def names_derive has_column_def)
qed

lemma record_derive_new:
  assumes "wf df" "(i, r) \<in> set (rows df)" "\<not> has_column c df"
  shows "record_of (derive c t g src df) (r @ [g (cell_of df src r)])
         = (record_of df r)(c := g (record_of df r src))"
proof
  fix d
  have len: "length r = length (names df)"
    using assms by (auto simp: wf_def list_all_iff names_def)
  show "record_of (derive c t g src df) (r @ [g (cell_of df src r)]) d
         = ((record_of df r)(c := g (record_of df r src))) d"
    using assms(3) len position_less [of d "names df"]
    by (auto simp: record_of_def cell_of_def cell_at_def pos_def names_derive has_column_def
        position_append position_notin nth_append)
qed

lemma records_derive:
  assumes "wf df"
  shows "records (derive c t g src df) = map (\<lambda>v. v(c := g (v src))) (records df)"
  unfolding records_def rows_derive
  by (auto simp: record_derive_has [OF assms] record_derive_new [OF assms])

lemma records_convert:
  "wf df \<Longrightarrow> records (convert c t g df) = map (\<lambda>v. v(c := g (v c))) (records df)"
  by (simp add: convert_def records_derive)

lemma records_drop_duplicates: "set (records (drop_duplicates df)) \<subseteq> set (records df)"
  using keep_first_subset [of "rows df" "[]"]
  by (auto simp: records_def drop_duplicates_def record_of_def cell_of_def pos_def names_def)

lemma names_drop_duplicates: "names (drop_duplicates df) = names df"
  by (simp add: names_def drop_duplicates_def)

lemma distinct_drop_duplicates: "distinct (map snd (rows (drop_duplicates df)))"
  using keep_first_distinct [of "rows df" "[]"] by (simp add: drop_duplicates_def)

lemma record_absent:
  assumes "wf df" "\<not> has_column c df" "v \<in> set (records df)"
  shows "v c = Null"
  using assms
  by (auto simp: records_def record_of_def cell_of_def cell_at_def pos_def has_column_def wf_def
      list_all_iff position_notin names_def)

lemma distinct_derive_new:
  assumes "\<not> has_column c df" "distinct (map snd (rows df))"
  shows "distinct (map snd (rows (derive c t g src df)))"
proof -
  have eq: "map snd (rows (derive c t g src df)) =
      map (\<lambda>r. r @ [g (cell_of df src r)]) (map snd (rows df))"
    using assms(1) by (simp add: rows_derive case_prod_beta comp_def)
  have inj: "inj_on (\<lambda>r. r @ [g (cell_of df src r)]) (set (map snd (rows df)))"
    by (rule inj_onI) simp
  show ?thesis
    unfolding eq by (rule iffD2 [OF distinct_map]) (intro conjI assms(2) inj)
qed


lemma wf_step: "wf df \<Longrightarrow> wf (when_column c (convert c t g) df)"
  by (simp add: when_column_def wf_convert)

lemma names_step: "names (when_column c (convert c t g) df) = names df"
  by (simp add: when_column_def names_convert)

lemma fillna_not_Null: "fillna v c \<noteq> Null"
  by (cases c) (simp_all add: fillna_def)

lemma dayofweek_range: "\<exists>k. dayofweek (Ts t) = Num (of_int k) \<and> 0 \<le> k \<and> k \<le> 6"
proof -
  have "0 \<le> (t div 86400 + 3) mod 7" "(t div 86400 + 3) mod 7 \<le> 6"
    by simp_all
  then show ?thesis
    unfolding dayofweek_def by auto
qed

text \<open>
  Claim C2, amended. For every well-formed raw table with a \<open>delay_minutes\<close> column, the
  cleaned table has no null in \<open>delay_minutes\<close>, and \<open>day_of_week\<close> lies between 0
  and 6 in every row whose \<open>scheduled_time\<close> is a timestamp. No two rows of the cleaned
  table are identical provided the raw table, when it has a \<open>scheduled_time\<close> column,
  has no column named \<open>day_of_week\<close> or \<open>hour_of_day\<close>: duplicates are removed
  before the two derived columns are written, and writing them over columns of the same
  names can make different rows equal.
\<close>

theorem clean_train_delays_clean:
  assumes "wf df" and "has_column ''delay_minutes'' df"
  shows "list_all (\<lambda>v. v ''delay_minutes'' \<noteq> Null) (records (clean_train_delays P df)) \<and>
         list_all (\<lambda>v. \<forall>t. v ''scheduled_time'' = Ts t \<longrightarrow>
                      (\<exists>k. v ''day_of_week'' = Num (of_int k) \<and> 0 \<le> k \<and> k \<le> 6))
           (records (clean_train_delays P df)) \<and>
         ((has_column ''scheduled_time'' df \<longrightarrow>
             \<not> has_column ''day_of_week'' df \<and> \<not> has_column ''hour_of_day'' df) \<longrightarrow>
          distinct (map snd (rows (clean_train_delays P df))))"
proof -
  define df1 where "df1 = when_column ''delay_minutes''
    (convert ''delay_minutes'' Numeric (to_numeric P)) df"
  define df2 where "df2 = when_column ''scheduled_time''
    (convert ''scheduled_time'' Datetime (to_datetime P)) df1"
  define df3 where "df3 = when_column ''actual_time''
    (convert ''actual_time'' Datetime (to_datetime P)) df2"
  define df4 where "df4 = when_column ''date'' (convert ''date'' Datetime (to_datetime P)) df3"
  define df5 where "df5 = when_column ''delay_minutes''
    (convert ''delay_minutes'' Numeric (fillna 0)) df4"
  define df6 where "df6 = drop_duplicates df5"
  define df7 where "df7 = derive ''day_of_week'' Numeric dayofweek ''scheduled_time'' df6"
  define out where "out = clean_train_delays P df"
  have "out = when_column ''scheduled_time''
      (\<lambda>d. derive ''hour_of_day'' Numeric hour ''scheduled_time''
             (derive ''day_of_week'' Numeric dayofweek ''scheduled_time'' d)) df6"
    by (simp add: out_def clean_train_delays_def df1_def df2_def df3_def df4_def df5_def df6_def)
  then have out: "out = (if has_column ''scheduled_time'' df6
      then derive ''hour_of_day'' Numeric hour ''scheduled_time'' df7 else df6)"
    by (simp add: when_column_def df7_def)
  have wf4: "wf df4"
    unfolding df4_def df3_def df2_def df1_def by (intro wf_step assms(1))
  then have wf5: "wf df5"
    unfolding df5_def by (rule wf_step)
  then have wf6: "wf df6"
    unfolding df6_def by (rule wf_drop_duplicates)
  then have wf7: "wf df7"
    unfolding df7_def by (rule wf_derive)
  have n4: "names df4 = names df"
    unfolding df4_def df3_def df2_def df1_def by (simp only: names_step)
  then have n6: "names df6 = names df"
    unfolding df6_def df5_def by (simp only: names_step names_drop_duplicates)
  have has6: "has_column c df6 = has_column c df" for c
    by (simp add: has_column_def n6)
  have "has_column ''delay_minutes'' df4"
    using assms(2) by (simp add: has_column_def n4)
  then have "records df5 = map (\<lambda>v. v(''delay_minutes'' := fillna 0 (v ''delay_minutes''))) (records df4)"
    unfolding df5_def using wf4 by (simp add: when_column_def records_convert)
  then have r5: "v ''delay_minutes'' \<noteq> Null" if "v \<in> set (records df5)" for v
    using that by (auto simp: fillna_not_Null)
  have r6: "v ''delay_minutes'' \<noteq> Null" if "v \<in> set (records df6)" for v
    using that r5 records_drop_duplicates [of df5] by (auto simp: df6_def)
  have rout: "records out =
      (if has_column ''scheduled_time'' df6
       then map (\<lambda>v. v(''day_of_week'' := dayofweek (v ''scheduled_time''),
                        ''hour_of_day'' := hour (v ''scheduled_time''))) (records df6)
       else records df6)"
    unfolding out df7_def using wf6 wf7 [unfolded df7_def]
    by (simp add: records_derive)
  have a: "v ''delay_minutes'' \<noteq> Null" if "v \<in> set (records out)" for v
    using that r6 unfolding rout by (auto split: if_splits)
  have c: "\<exists>k. v ''day_of_week'' = Num (of_int k) \<and> 0 \<le> k \<and> k \<le> 6"
    if "v \<in> set (records out)" "v ''scheduled_time'' = Ts t" for v t
  proof (cases "has_column ''scheduled_time'' df6")
    case True
    with that show ?thesis
      unfolding rout using dayofweek_range [of t] by auto
  next
    case False
    with that record_absent [OF wf6 False, of v] show ?thesis
      unfolding rout by simp
  qed
  have b: "distinct (map snd (rows out))"
    if "has_column ''scheduled_time'' df \<longrightarrow>
        \<not> has_column ''day_of_week'' df \<and> \<not> has_column ''hour_of_day'' df"
  proof (cases "has_column ''scheduled_time'' df6")
    case True
    then have "\<not> has_column ''day_of_week'' df6" "\<not> has_column ''hour_of_day'' df7"
      using that by (simp_all add: has6 df7_def has_column_derive)
    then show ?thesis
      unfolding out using True distinct_drop_duplicates [of df5]
      by (simp add: distinct_derive_new df7_def df6_def)
  next
    case False
    then show ?thesis
      unfolding out using distinct_drop_duplicates [of df5] by (simp add: df6_def)
  qed
  show ?thesis
    unfolding out_def [symmetric] list_all_iff using a b c by blast
qed

theorem clean_train_delays_clean_witness:
  "wf dummy_train_data \<and> has_column ''delay_minutes'' dummy_train_data \<and>
   list_all (\<lambda>v. v ''delay_minutes'' \<noteq> Null)
     (records (clean_train_delays sample_readers dummy_train_data)) \<and>
   distinct (map snd (rows (clean_train_delays sample_readers dummy_train_data))) \<and>
   map (\<lambda>v. v ''delay_minutes'') (records (clean_train_delays sample_readers dummy_train_data)) =
     [Num 5, Num 0, Num 10, Num 5, Num 0] \<and>
   map (\<lambda>v. v ''day_of_week'') (records (clean_train_delays sample_readers dummy_train_data)) =
     [Num 6, Num 6, Num 0, Num 0, Num 1]"
proof -
  have w: "wf dummy_train_data"
    by code_simp
  have h: "has_column ''delay_minutes'' dummy_train_data"
    by code_simp
  have n: "\<not> has_column ''day_of_week'' dummy_train_data \<and>
      \<not> has_column ''hour_of_day'' dummy_train_data"
    by code_simp
  have e: "map (\<lambda>v. v ''delay_minutes'')
        (records (clean_train_delays sample_readers dummy_train_data)) =
      [Num 5, Num 0, Num 10, Num 5, Num 0]"
    "map (\<lambda>v. v ''day_of_week'') (records (clean_train_delays sample_readers dummy_train_data)) =
      [Num 6, Num 6, Num 0, Num 0, Num 1]"
    by code_simp+
  from clean_train_delays_clean [OF w h, of sample_readers] n w h e show ?thesis
    by blast
qed

theorem clean_train_delays_duplicates_counterexample:
  "wf day_labelled \<and> has_column ''delay_minutes'' day_labelled \<and>
   map snd (rows (clean_train_delays sample_readers day_labelled)) =
     [[Ts 1673769600, Num 5, Num 6, Num 8], [Ts 1673769600, Num 5, Num 6, Num 8]] \<and>
   \<not> distinct (map snd (rows (clean_train_delays sample_readers day_labelled)))"
  by code_simp

section \<open>Left merge\<close>








section \<open>The analysis functions\<close>

lemma df_merged_value [code]:
  "df_merged =
     \<lparr>columns =
        [(''train_id'', Object), (''scheduled_time'', Datetime), (''actual_time'', Object),
         (''delay_minutes'', Numeric), (''route'', Object), (''date'', Datetime),
         (''temperature'', Numeric), (''weather_condition'', Object)],
      rows =
        [(Num 0, [Str ''R123'', Ts 1673769600, Str ''2023-01-15 08:05:00'', Num 5,
                  Str ''Ostrava-Frenstat'', Ts 1673740800, Num (5 / 2), Str ''cloudy'']),
         (Num 1, [Str ''EC456'', Ts 1673778600, Str ''2023-01-15 10:30:00'', Num 0,
                  Str ''Ostrava-Frydlant'', Ts 1673740800, Num 3, Str ''sunny'']),
         (Num 2, [Str ''R123'', Ts 1673856000, Str ''2023-01-16 08:10:00'', Num 10,
                  Str ''Ostrava-Frenstat'', Ts 1673827200, Num (- 1), Str ''snowy'']),
         (Num 3, [Str ''EC456'', Ts 1673865000, Str ''2023-01-16 10:35:00'', Num 5,
                  Str ''Ostrava-Frydlant'', Ts 1673827200, Num 0, Str ''snowy'']),
         (Num 4, [Str ''R123'', Ts 1673942400, Str ''2023-01-17 08:00:00'', Num 0,
                  Str ''Ostrava-Frenstat'', Ts 1673913600, Num 5, Str ''rainy'']),
         (Num 5, [Str ''R123'', Ts 1673956800, Str ''2023-01-17 12:15:00'', Num 15,
                  Str ''Ostrava-Frenstat'', Ts 1673913600, Num 6, Str ''rainy''])]\<rparr>"
  by code_simp

text \<open>
  Claim C4. When the group column and a numeric value column exist, \<open>perform_t_test\<close>
  returns the null sentinel if one of the two groups has fewer than two observations
  (non-null values of the value column in the rows of the group), and otherwise returns a
  pair of a t statistic and a p-value. Every path of the model returns, so none raises.
\<close>

theorem perform_t_test_observations:
  assumes "has_column group_col df" and "has_column value_col df"
    and "is_numeric_dtype (dtype_of df value_col)"
  shows "(length (group_values df group_col value_col a) < 2 \<or>
          length (group_values df group_col value_col b) < 2 \<longrightarrow>
            perform_t_test df group_col value_col a b = None) \<and>
         (2 \<le> length (group_values df group_col value_col a) \<and>
          2 \<le> length (group_values df group_col value_col b) \<longrightarrow>
            (\<exists>t p. perform_t_test df group_col value_col a b = Some (t, p)))"
  using assms by (simp add: perform_t_test_def Let_def)

theorem perform_t_test_observations_witness:
  "has_column ''is_snowy'' df_merged_snowy \<and> has_column ''delay_minutes'' df_merged_snowy \<and>
   is_numeric_dtype (dtype_of df_merged_snowy ''delay_minutes'') \<and>
   group_values df_merged_snowy ''is_snowy'' ''delay_minutes'' (Num 1) = [Num 10, Num 5] \<and>
   group_values df_merged_snowy ''is_snowy'' ''delay_minutes'' (Num 0) =
     [Num 5, Num 0, Num 0, Num 15] \<and>
   group_values df_merged_snowy ''is_snowy'' ''delay_minutes'' (Num 2) = [] \<and>
   (\<exists>t p. perform_t_test df_merged_snowy ''is_snowy'' ''delay_minutes'' (Num 1) (Num 0)
      = Some (t, p)) \<and>
   perform_t_test df_merged_snowy ''is_snowy'' ''delay_minutes'' (Num 1) (Num 2) = None"
proof -
  have h: "has_column ''is_snowy'' df_merged_snowy" "has_column ''delay_minutes'' df_merged_snowy"
    "is_numeric_dtype (dtype_of df_merged_snowy ''delay_minutes'')"
    by code_simp+
  have g: "group_values df_merged_snowy ''is_snowy'' ''delay_minutes'' (Num 1) = [Num 10, Num 5]"
    "group_values df_merged_snowy ''is_snowy'' ''delay_minutes'' (Num 0) =
      [Num 5, Num 0, Num 0, Num 15]"
    "group_values df_merged_snowy ''is_snowy'' ''delay_minutes'' (Num 2) = []"
    by code_simp+
  from perform_t_test_observations [OF h, of "Num 1" "Num 0"]
    perform_t_test_observations [OF h, of "Num 1" "Num 2"] h g
  show ?thesis by simp
qed

text \<open>
  Claim C5. On the six-row self-test table (timestamps on 15, 16 and 17 January 2023,
  delays 5, 0, 10, 5, 0, 15), \<open>aggregate_by_time\<close> with daily frequency and mean
  aggregation returns exactly one row per calendar date present, holding the arithmetic
  mean of the delays of that date: 2.5, 7.5 and 7.5.
\<close>

theorem aggregate_by_time_daily_mean:
  "aggregate_by_time df_merged ''scheduled_time'' ''delay_minutes'' Daily (AggStr AggMean) =
     \<lparr>columns = [(''delay_minutes'', Numeric)],
      rows = [(Ts 1673740800, [Num (5 / 2)]), (Ts 1673827200, [Num (15 / 2)]),
              (Ts 1673913600, [Num (15 / 2)])]\<rparr> \<and>
   remdups (map (\<lambda>t. t div 86400) (timestamps (series df_merged ''scheduled_time''))) =
     [1673740800 div 86400, 1673827200 div 86400, 1673913600 div 86400] \<and>
   series df_merged ''delay_minutes'' = [Num 5, Num 0, Num 10, Num 5, Num 0, Num 15] \<and>
   iso_datetime ''2023-01-15'' = Some 1673740800 \<and>
   iso_datetime ''2023-01-16'' = Some 1673827200 \<and>
   iso_datetime ''2023-01-17'' = Some 1673913600"
  by code_simp

theorem aggregate_by_time_daily_mean_witness:
  "length (rows (aggregate_by_time df_merged ''scheduled_time'' ''delay_minutes'' Daily
     (AggStr AggMean))) = 3 \<and>
   map snd (rows (aggregate_by_time df_merged ''scheduled_time'' ''delay_minutes'' Daily
     (AggStr AggMean))) = [[Num (5 / 2)], [Num (15 / 2)], [Num (15 / 2)]]"
  using aggregate_by_time_daily_mean by simp

text \<open>
  Claim C6. On a table that lacks a column named by the call,
  \<open>get_descriptive_statistics\<close>, \<open>perform_t_test\<close> and \<open>calculate_correlation\<close>
  return \<open>None\<close> and \<open>aggregate_by_time\<close> returns the empty table; the check of the
  columns comes first in each function, so nothing is raised.
\<close>

theorem missing_column_sentinel:
  "(\<not> has_column column df \<longrightarrow> get_descriptive_statistics df column = None) \<and>
   (\<not> has_column group_col df \<or> \<not> has_column value_col df \<longrightarrow>
      perform_t_test df group_col value_col a b = None) \<and>
   (\<not> has_column col1 df \<or> \<not> has_column col2 df \<longrightarrow>
      calculate_correlation df col1 col2 method = None) \<and>
   (\<not> has_column time_col df \<or> \<not> has_column val_col df \<longrightarrow>
      aggregate_by_time df time_col val_col f agg = DataFrame \<and>
      empty (aggregate_by_time df time_col val_col f agg))"
  by (simp add: get_descriptive_statistics_def perform_t_test_def calculate_correlation_def
      aggregate_by_time_def empty_def DataFrame_def)

theorem missing_column_sentinel_witness:
  "\<not> has_column ''humidity'' df_merged \<and>
   get_descriptive_statistics df_merged ''humidity'' = None \<and>
   perform_t_test df_merged ''humidity'' ''delay_minutes'' (Num 1) (Num 0) = None \<and>
   perform_t_test df_merged ''route'' ''humidity'' (Str ''Ostrava-Frenstat'')
     (Str ''Ostrava-Frydlant'') = None \<and>
   calculate_correlation df_merged ''delay_minutes'' ''humidity'' ''pearson'' = None \<and>
   aggregate_by_time df_merged ''scheduled_time'' ''humidity'' Daily (AggStr AggMean) = DataFrame"
proof -
  have h: "\<not> has_column ''humidity'' df_merged"
    by code_simp
  from h missing_column_sentinel [of "''humidity''" df_merged "''humidity''" "''delay_minutes''"
      "Num 1" "Num 0" "''delay_minutes''" "''humidity''" "''pearson''" "''scheduled_time''"
      "''humidity''" Daily "AggStr AggMean"]
    missing_column_sentinel [of "''humidity''" df_merged "''route''" "''humidity''"
      "Str ''Ostrava-Frenstat''" "Str ''Ostrava-Frydlant''" "''delay_minutes''" "''humidity''"
      "''pearson''" "''scheduled_time''" "''humidity''" Daily "AggStr AggMean"]
  show ?thesis by simp
qed

section \<open>Geometry tables\<close>






text \<open>
  Claim C7, amended. When the path can be written, \<open>create_leaflet_geojson\<close> writes the
  collection in GeoJSON. If the collection carries a reference system, what is written
  is in EPSG:4326: as it is when that is its system already, reprojected otherwise. A
  collection without a reference system passes the guard and is written as it is, with
  its coordinates untouched and no reference system.
\<close>

theorem create_leaflet_geojson_crs:
  assumes "writable L path"
  shows "\<exists>gdf'. create_leaflet_geojson L fs gdf path = (True, fs(path \<mapsto> (''GeoJSON'', gdf'))) \<and>
           (crs gdf \<noteq> None \<longrightarrow> crs gdf' = Some ''EPSG:4326'') \<and>
           (crs gdf = None \<or> crs gdf = Some ''EPSG:4326'' \<longrightarrow> gdf' = gdf) \<and>
           (\<forall>c. crs gdf = Some c \<and> c \<noteq> ''EPSG:4326'' \<longrightarrow>
                 geometry gdf' = map (transform L c ''EPSG:4326'') (geometry gdf) \<and>
                 frame gdf' = frame gdf)"
  using assms
  by (cases "crs gdf") (auto simp: create_leaflet_geojson_def to_crs_def to_file_def)

theorem create_leaflet_geojson_crs_witness:
  "writable plain_lib ''stations.geojson'' \<and>
   crs grid_stations = Some ''EPSG:5514'' \<and>
   (\<exists>gdf'. create_leaflet_geojson plain_lib Map.empty grid_stations ''stations.geojson'' =
            (True, [''stations.geojson'' \<mapsto> (''GeoJSON'', gdf')]) \<and>
          crs gdf' = Some ''EPSG:4326'')"
proof -
  have h: "writable plain_lib ''stations.geojson''"
    by (simp add: plain_lib_def)
  have c: "crs grid_stations = Some ''EPSG:5514''"
    by (simp add: grid_stations_def)
  from create_leaflet_geojson_crs [OF h, of Map.empty grid_stations] h c show ?thesis
    by auto
qed

theorem create_leaflet_geojson_no_crs_counterexample:
  "fst (create_leaflet_geojson plain_lib Map.empty unreferenced_stations ''stations.geojson'') \<and>
   map_option (\<lambda>(driver, gdf). (driver, crs gdf, geometry gdf))
     (snd (create_leaflet_geojson plain_lib Map.empty unreferenced_stations ''stations.geojson'')
        ''stations.geojson'')
   = Some (''GeoJSON'', None, [(- 470000, - 1100000)])"
  by (simp add: create_leaflet_geojson_def to_file_def plain_lib_def unreferenced_stations_def)

section \<open>The cleaners change the caller's table\<close>

lemma in_place_Some: "s df = Some t \<Longrightarrow> in_place df f s = s(df \<mapsto> f t)"
  by (simp add: in_place_def)




end
